theory Spec2Isabelle
  imports Main "HOL-Library.Sublist"
begin

section \<open>Python values and \<^verbatim>\<open>str()\<close>\<close>

text \<open>
  The arguments \<^verbatim>\<open>org_id\<close> and \<^verbatim>\<open>field_id\<close> of the field endpoints are passed
  through Python's \<^verbatim>\<open>str()\<close> before they are used. The values modelled are the ones
  the annotations name (\<^verbatim>\<open>int | str\<close>) together with \<^verbatim>\<open>bool\<close> and \<^verbatim>\<open>None\<close>,
  which \<^verbatim>\<open>str()\<close> accepts just as well. Python integers are unbounded, hence
  \<^typ>\<open>int\<close>. Strings are \<^typ>\<open>string\<close>; \<^verbatim>\<open>str()\<close> of a string is that string.

  A computation that may raise \<^verbatim>\<open>ValueError\<close> returns \<open>string + 'a\<close>: \<open>Inl m\<close> is the
  exception with message \<open>m\<close>, \<open>Inr x\<close> the value.

  CPython refuses to convert an integer of more than \<^verbatim>\<open>sys.get_int_max_str_digits()\<close>
  decimal digits and raises \<^verbatim>\<open>ValueError\<close>; the limit is the interpreter's default, 4300.
\<close>

datatype pyval = PyInt int | PyStr string | PyBool bool | PyNone

definition digit_char :: "nat \<Rightarrow> char" where
  "digit_char d = ''0123456789'' ! d"

fun str_nat :: "nat \<Rightarrow> string" where
  "str_nat n = (if n < 10 then [digit_char n] else str_nat (n div 10) @ [digit_char (n mod 10)])"

declare str_nat.simps [simp del]

definition max_str_digits :: nat where
  "max_str_digits = 4300"

definition str_int :: "int \<Rightarrow> string + string" where
  "str_int i =
     (let digits = str_nat (nat \<bar>i\<bar>)
      in if max_str_digits < length digits
         then Inl (''Exceeds the limit (4300 digits) for integer string conversion; ''
                   @ ''use sys.set_int_max_str_digits() to increase the limit'')
         else Inr (if i < 0 then CHR ''-'' # digits else digits))"

fun py_str :: "pyval \<Rightarrow> string + string" where
  "py_str (PyStr s) = Inr s"
| "py_str (PyInt i) = str_int i"
| "py_str (PyBool b) = Inr (if b then ''True'' else ''False'')"
| "py_str PyNone = Inr ''None''"



text \<open>
  \<^verbatim>\<open>repr()\<close> of a string, as it appears in the message of the URL builder: the string
  between single quotes (double quotes when it holds a single quote and no double
  quote), with the quote character, the backslash and the control characters escaped.
  Characters are bytes here; bytes above 127 are left as they are.
\<close>

definition repr_quote :: "string \<Rightarrow> char" where
  "repr_quote s = (if CHR 0x27 \<in> set s \<and> CHR 0x22 \<notin> set s then CHR 0x22 else CHR 0x27)"

definition hex_char :: "nat \<Rightarrow> char" where
  "hex_char d = ''0123456789abcdef'' ! d"

definition repr_char :: "char \<Rightarrow> char \<Rightarrow> string" where
  "repr_char q c =
     (if c = q \<or> c = CHR 0x5C then [CHR 0x5C, c]
      else if c = CHR 0x09 then [CHR 0x5C, CHR ''t'']
      else if c = CHR 0x0A then [CHR 0x5C, CHR ''n'']
      else if c = CHR 0x0D then [CHR 0x5C, CHR ''r'']
      else if (of_char c :: nat) < 32 \<or> (of_char c :: nat) = 127
        then [CHR 0x5C, CHR ''x'', hex_char (of_char c div 16), hex_char (of_char c mod 16)]
      else [c])"

definition py_repr :: "string \<Rightarrow> string" where
  "py_repr s = (let q = repr_quote s in q # concat (map (repr_char q) s) @ [q])"

section \<open>The URL builder (\<^verbatim>\<open>BASE_URL\<close>)\<close>

text \<open>
  \<^verbatim>\<open>self.BASE_URL\<close> is a yarl URL (the comment above \<^verbatim>\<open>org_id = str(org_id)\<close> says
  so); its declaration is not part of \<^verbatim>\<open>fields.py\<close>, so it is a parameter of the
  model. The spec describes it as a composable URL builder with path-segment append and
  query-parameter merge. A URL is kept in structured form: an origin, the path segments
  below the root and the query parameters in order. A path that ends with a slash has
  the empty string as its last segment.

  \<^verbatim>\<open>url / name\<close> is yarl's \<^verbatim>\<open>URL.__truediv__\<close>:
  \<^item> a name that starts with a slash is refused with \<^verbatim>\<open>ValueError\<close>;
  \<^item> otherwise the name is split at its slashes and the pieces are appended to the
    path, after a trailing empty segment of the old path has been removed;
  \<^item> when the name holds a dot, the path is normalised: a segment \<^verbatim>\<open>.\<close> is dropped, a
    segment \<^verbatim>\<open>..\<close> removes the segment before it (none when it is at the root), and a
    path that ended with either gets a trailing slash;
  \<^item> the result carries no query, so a query of \<^verbatim>\<open>BASE_URL\<close> itself never reaches a
    request.
  \<^verbatim>\<open>url % {key: value}\<close> is \<^verbatim>\<open>URL.update_query\<close>: the query is the old one updated with the
  pair (an existing key is overwritten in place, a new key is appended).

  The path and the query hold the strings before percent-encoding; how the library
  encodes them when the URL is rendered is outside the model.
\<close>

record url =
  origin :: string
  path :: "string list"
  query :: "(string \<times> string) list"

fun split_on :: "char \<Rightarrow> string \<Rightarrow> string list" where
  "split_on c [] = [[]]"
| "split_on c (x # xs) =
     (if x = c then [] # split_on c xs
      else (case split_on c xs of [] \<Rightarrow> [[x]] | y # ys \<Rightarrow> (x # y) # ys))"

fun resolve_segments :: "string list \<Rightarrow> string list \<Rightarrow> string list" where
  "resolve_segments resolved_path [] = resolved_path"
| "resolve_segments resolved_path (seg # segments) =
     (if seg = ''..'' then resolve_segments (butlast resolved_path) segments
      else if seg = ''.'' then resolve_segments resolved_path segments
      else resolve_segments (resolved_path @ [seg]) segments)"

definition normalize_path_segments :: "string list \<Rightarrow> string list" where
  "normalize_path_segments segments =
     (let resolved_path = resolve_segments [] segments
      in if segments \<noteq> [] \<and> (last segments = ''.'' \<or> last segments = ''..'')
         then resolved_path @ [[]] else resolved_path)"

definition starts_with_slash :: "string \<Rightarrow> bool" where
  "starts_with_slash name = (case name of [] \<Rightarrow> False | c # _ \<Rightarrow> c = CHR ''/'')"

definition make_child_path :: "string list \<Rightarrow> string \<Rightarrow> string list" where
  "make_child_path old_segments name =
     (let segments = split_on (CHR ''/'') name;
          old = (if old_segments \<noteq> [] \<and> last old_segments = [] then butlast old_segments
                 else old_segments);
          parsed = old @ segments
      in if CHR ''.'' \<in> set name then normalize_path_segments parsed else parsed)"

definition url_truediv :: "url \<Rightarrow> string \<Rightarrow> string + url" where
  "url_truediv u name =
     (if starts_with_slash name
      then Inl (''Appending path '' @ py_repr name @ '' starting from slash is forbidden'')
      else Inr \<lparr>origin = origin u, path = make_child_path (path u) name, query = []\<rparr>)"

text \<open>The next link of a chain \<^verbatim>\<open>a / b / c\<close>: an exception raised on the left ends the chain.\<close>

definition then_truediv :: "string + url \<Rightarrow> string \<Rightarrow> string + url" where
  "then_truediv r name = (case r of Inl m \<Rightarrow> Inl m | Inr u \<Rightarrow> url_truediv u name)"

fun update_query :: "(string \<times> string) list \<Rightarrow> string \<Rightarrow> string \<Rightarrow> (string \<times> string) list" where
  "update_query [] k v = [(k, v)]"
| "update_query (p # q) k v =
     (if fst p = k then (k, v) # filter (\<lambda>p'. fst p' \<noteq> k) q else p # update_query q k v)"

definition url_mod :: "url \<Rightarrow> string \<Rightarrow> string \<Rightarrow> url" where
  "url_mod u k v = u\<lparr>query := update_query (query u) k v\<rparr>"

section \<open>The HTTP client (\<^verbatim>\<open>self.private\<close>)\<close>

text \<open>
  The client is a collaborator owned by the enclosing object. A call
  \<^verbatim>\<open>self.private.get(url)\<close> either raises an error of the client (type \<open>'e\<close>) or returns
  a response. A response has a status code, and \<^verbatim>\<open>response.json()\<close> either raises an
  error of the client or returns the parsed body (type \<open>'j\<close>). The requests issued so
  far are the state: every \<^verbatim>\<open>get\<close> appends its URL to that log.
\<close>

record ('e, 'j) response =
  status_code :: int
  json :: "'e + 'j"

type_synonym ('e, 'j) client = "url \<Rightarrow> 'e + ('e, 'j) response"

datatype ('e, 'j) error =
    ValueError string
  | ClientError 'e
  | HTTPStatusError "('e, 'j) response"

definition private_get ::
  "('e, 'j) client \<Rightarrow> url list \<Rightarrow> url \<Rightarrow> url list \<times> ('e + ('e, 'j) response)" where
  "private_get private log u = (log @ [u], private u)"

text \<open>
  Modelled from the spec: \<^verbatim>\<open>raise_for_status\<close> belongs to the response object of the
  HTTP client and is not in \<^verbatim>\<open>fields.py\<close>; the spec says it fails on a non-2xx response.
\<close>

definition raise_for_status :: "('e, 'j) response \<Rightarrow> ('e, 'j) error + unit" where
  "raise_for_status response =
     (if 200 \<le> status_code response \<and> status_code response < 300 then Inr ()
      else Inl (HTTPStatusError response))"

definition response_json :: "('e, 'j) response \<Rightarrow> ('e, 'j) error + 'j" where
  "response_json response = (case json response of Inl e \<Rightarrow> Inl (ClientError e) | Inr j \<Rightarrow> Inr j)"

section \<open>\<^verbatim>\<open>RecordStatuses\<close>\<close>

text \<open>
  Modelled from the spec: the base class \<^verbatim>\<open>johndeere.enum.ExtendableStrEnum\<close> is not in
  \<^verbatim>\<open>fields.py\<close>. The spec describes it as a set of strings that callers may extend at
  run time and that is checked by a membership test. The three members
  \<^verbatim>\<open>ALL\<close>, \<^verbatim>\<open>ACTIVE\<close>, \<^verbatim>\<open>ARCHIVED\<close> are the ones \<^verbatim>\<open>fields.py\<close> declares; the values
  registered at run time are the parameter.
\<close>

definition RecordStatuses :: "string list \<Rightarrow> string list" where
  "RecordStatuses registered = [''ALL'', ''ACTIVE'', ''ARCHIVED''] @ registered"

section \<open>\<^verbatim>\<open>FieldsMixin\<close>\<close>

text \<open>The \<^verbatim>\<open>embed\<close> argument of \<^verbatim>\<open>get_fields\<close>: \<^verbatim>\<open>str | list[str] | None\<close>.\<close>

datatype embed_arg = EmbedStr string | EmbedList "string list"

text \<open>
  \<^verbatim>\<open>get_fields\<close>. The object's \<^verbatim>\<open>BASE_URL\<close> and \<^verbatim>\<open>private\<close>, the values registered
  with \<^verbatim>\<open>RecordStatuses\<close> and the request log come first, then the arguments in the
  order of the source. The result is the new request log and either the exception
  raised or the value returned. The statements run in the order of the source:
  \<^verbatim>\<open>str(org_id)\<close>, the URL, the optional filters, the membership test, the request.
\<close>

definition get_fields ::
  "url \<Rightarrow> ('e, 'j) client \<Rightarrow> string list \<Rightarrow> url list \<Rightarrow>
   pyval \<Rightarrow> string option \<Rightarrow> string option \<Rightarrow> string option \<Rightarrow> string \<Rightarrow> embed_arg option \<Rightarrow>
   url list \<times> (('e, 'j) error + 'j)" where
  "get_fields BASE_URL private registered log org_id field_name farm_name client_name
     record_filter embed' =
     (case py_str org_id of
        Inl m \<Rightarrow> (log, Inl (ValueError m))
      | Inr org_id \<Rightarrow>
     (case then_truediv (then_truediv (url_truediv BASE_URL ''organizations'') org_id) ''fields'' of
        Inl m \<Rightarrow> (log, Inl (ValueError m))
      | Inr url \<Rightarrow>
     (let url = (case field_name of None \<Rightarrow> url | Some v \<Rightarrow> url_mod url ''fieldName'' v);
          url = (case farm_name of None \<Rightarrow> url | Some v \<Rightarrow> url_mod url ''farmName'' v);
          url = (case client_name of None \<Rightarrow> url | Some v \<Rightarrow> url_mod url ''clientName'' v)
      in if record_filter \<in> set (RecordStatuses registered) then
           (let url = url_mod url ''recordFilter'' record_filter;
                url = url_mod url ''embed'' ''clients,farms,boundaries'';
                (log, r) = private_get private log url
            in case r of
                 Inl e \<Rightarrow> (log, Inl (ClientError e))
               | Inr response \<Rightarrow>
                   (case raise_for_status response of
                      Inl e \<Rightarrow> (log, Inl e)
                    | Inr _ \<Rightarrow> (log, response_json response)))
         else (log, Inl (ValueError (''Invalid record status: '' @ record_filter))))))"

text \<open>\<^verbatim>\<open>get_field\<close>, with the same conventions.\<close>

definition get_field ::
  "url \<Rightarrow> ('e, 'j) client \<Rightarrow> url list \<Rightarrow> pyval \<Rightarrow> pyval \<Rightarrow> url list \<times> (('e, 'j) error + 'j)" where
  "get_field BASE_URL private log org_id field_id =
     (case py_str org_id of
        Inl m \<Rightarrow> (log, Inl (ValueError m))
      | Inr org_id \<Rightarrow>
     (case py_str field_id of
        Inl m \<Rightarrow> (log, Inl (ValueError m))
      | Inr field_id \<Rightarrow>
     (case then_truediv
             (then_truediv (then_truediv (url_truediv BASE_URL ''organizations'') org_id) ''fields'')
             field_id of
        Inl m \<Rightarrow> (log, Inl (ValueError m))
      | Inr url \<Rightarrow>
     (let (log, r) = private_get private log url
      in case r of
           Inl e \<Rightarrow> (log, Inl (ClientError e))
         | Inr response \<Rightarrow>
             (case raise_for_status response of
                Inl e \<Rightarrow> (log, Inl e)
              | Inr _ \<Rightarrow> (log, response_json response))))))"

text \<open>
  A plain segment: not empty, no slash, and neither \<^verbatim>\<open>.\<close> nor \<^verbatim>\<open>..\<close>. Appending a plain
  segment to a path of plain segments adds that one segment and nothing else.
\<close>

definition plain_segment :: "string \<Rightarrow> bool" where
  "plain_segment s = (s \<noteq> [] \<and> CHR ''/'' \<notin> set s \<and> s \<noteq> ''.'' \<and> s \<noteq> ''..'')"

section \<open>Auxiliary facts\<close>









lemma plain_segment_no_slash: "plain_segment s \<Longrightarrow> \<not> starts_with_slash s"
  by (cases s) (auto simp: plain_segment_def starts_with_slash_def)

text \<open>Appending a plain segment to a path of plain segments appends that segment.\<close>

lemma split_on_absent: "c \<notin> set s \<Longrightarrow> split_on c s = [s]"
  by (induction s) auto

lemma resolve_segments_plain:
  "list_all plain_segment segments \<Longrightarrow> resolve_segments acc segments = acc @ segments"
  by (induction segments arbitrary: acc) (auto simp: plain_segment_def)

lemma normalize_path_segments_plain:
  "list_all plain_segment segments \<Longrightarrow> normalize_path_segments segments = segments"
proof -
  assume p: "list_all plain_segment segments"
  have "segments \<noteq> [] \<Longrightarrow> plain_segment (last segments)"
    using p by (simp add: list_all_iff)
  then have "\<not> (segments \<noteq> [] \<and> (last segments = ''.'' \<or> last segments = ''..''))"
    by (auto simp: plain_segment_def)
  then show ?thesis
    using p by (simp add: normalize_path_segments_def resolve_segments_plain Let_def)
qed

lemma make_child_path_plain:
  assumes "list_all plain_segment old_segments" and "plain_segment name"
  shows "make_child_path old_segments name = old_segments @ [name]"
proof -
  have s: "split_on (CHR ''/'') name = [name]"
    using assms(2) by (simp add: split_on_absent plain_segment_def)
  have "old_segments \<noteq> [] \<Longrightarrow> plain_segment (last old_segments)"
    using assms(1) by (simp add: list_all_iff)
  then have o: "\<not> (old_segments \<noteq> [] \<and> last old_segments = [])"
    by (auto simp: plain_segment_def)
  have n: "normalize_path_segments (old_segments @ [name]) = old_segments @ [name]"
    using assms by (simp add: normalize_path_segments_plain)
  show ?thesis
    using s o n by (auto simp: make_child_path_def Let_def)
qed

lemma plain_organizations: "plain_segment ''organizations''"
  by (simp add: plain_segment_def)

lemma plain_fields: "plain_segment ''fields''"
  by (simp add: plain_segment_def)

text \<open>
  The chain \<^verbatim>\<open>BASE_URL / "organizations" / org_id / "fields"\<close>: it is refused exactly when
  \<^verbatim>\<open>org_id\<close> starts with a slash, the two literals being plain.
\<close>

lemma fields_chain_accepted:
  assumes "\<not> starts_with_slash s"
  shows "then_truediv (then_truediv (url_truediv BASE_URL ''organizations'') s) ''fields''
         = Inr \<lparr>origin = origin BASE_URL,
                path = make_child_path
                         (make_child_path (make_child_path (path BASE_URL) ''organizations'') s)
                         ''fields'',
                query = []\<rparr>"
  using assms by (simp add: then_truediv_def url_truediv_def starts_with_slash_def)

lemma fields_chain_refused:
  assumes "starts_with_slash s"
  shows "then_truediv (then_truediv (url_truediv BASE_URL ''organizations'') s) ''fields''
         = Inl (''Appending path '' @ py_repr s @ '' starting from slash is forbidden'')"
  using assms by (simp add: then_truediv_def url_truediv_def starts_with_slash_def)

lemma fields_path_plain:
  assumes "list_all plain_segment (path BASE_URL)" and "plain_segment s"
  shows "make_child_path (make_child_path (make_child_path (path BASE_URL) ''organizations'') s)
           ''fields''
         = path BASE_URL @ [''organizations'', s, ''fields'']"
  using assms
  by (simp add: make_child_path_plain plain_organizations plain_fields)

lemma field_path_plain:
  assumes "list_all plain_segment (path BASE_URL)" and "plain_segment s" and "plain_segment f"
  shows "make_child_path
           (make_child_path (make_child_path (make_child_path (path BASE_URL) ''organizations'') s)
              ''fields'') f
         = path BASE_URL @ [''organizations'', s, ''fields'', f]"
  using assms
  by (simp add: make_child_path_plain plain_organizations plain_fields)

text \<open>
  The four ways a call of \<^const>\<open>get_fields\<close> can go, in the order of the source:
  \<^verbatim>\<open>str(org_id)\<close> raises, the URL builder refuses \<^verbatim>\<open>org_id\<close>, \<^verbatim>\<open>record_filter\<close> is rejected,
  or the request is issued.
\<close>

lemma set_RecordStatuses:
  "set (RecordStatuses registered) = {''ALL'', ''ACTIVE'', ''ARCHIVED''} \<union> set registered"
  by (auto simp: RecordStatuses_def)

lemma get_fields_str_error:
  assumes "py_str org_id = Inl m"
  shows "get_fields BASE_URL private registered log org_id field_name farm_name client_name
           record_filter embed' = (log, Inl (ValueError m))"
  using assms by (simp add: get_fields_def)

lemma get_fields_refused:
  assumes "py_str org_id = Inr s" and "starts_with_slash s"
  shows "get_fields BASE_URL private registered log org_id field_name farm_name client_name
           record_filter embed'
         = (log, Inl (ValueError (''Appending path '' @ py_repr s
                                   @ '' starting from slash is forbidden'')))"
  using assms by (simp add: get_fields_def fields_chain_refused)

lemma get_fields_invalid:
  assumes "py_str org_id = Inr s" and "\<not> starts_with_slash s"
    and "record_filter \<notin> set (RecordStatuses registered)"
  shows "get_fields BASE_URL private registered log org_id field_name farm_name client_name
           record_filter embed'
         = (log, Inl (ValueError (''Invalid record status: '' @ record_filter)))"
  using assms by (simp add: get_fields_def fields_chain_accepted Let_def)

lemma get_fields_valid:
  assumes "py_str org_id = Inr s" and "\<not> starts_with_slash s"
    and "record_filter \<in> set (RecordStatuses registered)"
  shows "get_fields BASE_URL private registered log org_id field_name farm_name client_name
           record_filter embed'
         = (let url = \<lparr>origin = origin BASE_URL,
                       path = make_child_path
                                (make_child_path (make_child_path (path BASE_URL) ''organizations'') s)
                                ''fields'',
                       query = (case field_name of None \<Rightarrow> [] | Some v \<Rightarrow> [(''fieldName'', v)])
                             @ (case farm_name of None \<Rightarrow> [] | Some v \<Rightarrow> [(''farmName'', v)])
                             @ (case client_name of None \<Rightarrow> [] | Some v \<Rightarrow> [(''clientName'', v)])
                             @ [(''recordFilter'', record_filter),
                                (''embed'', ''clients,farms,boundaries'')]\<rparr>
            in (log @ [url],
                case private url of
                  Inl e \<Rightarrow> Inl (ClientError e)
                | Inr response \<Rightarrow>
                    if 200 \<le> status_code response \<and> status_code response < 300
                    then response_json response else Inl (HTTPStatusError response)))"
  using assms
  by (cases field_name; cases farm_name; cases client_name)
     (simp_all add: get_fields_def fields_chain_accepted Let_def url_mod_def private_get_def
        raise_for_status_def split: sum.splits)

lemma get_fields_outcome:
  "(\<exists>m. get_fields BASE_URL private registered log org_id field_name farm_name client_name
          record_filter embed' = (log, Inl (ValueError m)))
   \<or> (\<exists>s. py_str org_id = Inr s \<and> \<not> starts_with_slash s
          \<and> record_filter \<in> set (RecordStatuses registered))"
proof (cases "py_str org_id")
  case (Inl m)
  then show ?thesis
    by (simp add: get_fields_str_error)
next
  case (Inr s)
  show ?thesis
  proof (cases "starts_with_slash s")
    case True
    with Inr show ?thesis
      by (simp add: get_fields_refused)
  next
    case False
    with Inr show ?thesis
      by (cases "record_filter \<in> set (RecordStatuses registered)")
         (simp_all add: get_fields_invalid)
  qed
qed

text \<open>The same for \<^const>\<open>get_field\<close>.\<close>

lemma field_chain_accepted:
  assumes "\<not> starts_with_slash s" and "\<not> starts_with_slash f"
  shows "then_truediv
           (then_truediv (then_truediv (url_truediv BASE_URL ''organizations'') s) ''fields'') f
         = Inr \<lparr>origin = origin BASE_URL,
                path = make_child_path
                         (make_child_path
                            (make_child_path (make_child_path (path BASE_URL) ''organizations'') s)
                            ''fields'') f,
                query = []\<rparr>"
  using assms by (simp add: then_truediv_def url_truediv_def starts_with_slash_def)

lemma field_chain_refused:
  assumes "starts_with_slash s \<or> starts_with_slash f"
  shows "\<exists>m. then_truediv
                (then_truediv (then_truediv (url_truediv BASE_URL ''organizations'') s) ''fields'') f
              = Inl m"
  using assms by (auto simp: then_truediv_def url_truediv_def starts_with_slash_def)

lemma get_field_eq:
  assumes "py_str org_id = Inr s" and "py_str field_id = Inr f"
    and "\<not> starts_with_slash s" and "\<not> starts_with_slash f"
  shows "get_field BASE_URL private log org_id field_id
   = (let url = \<lparr>origin = origin BASE_URL,
                 path = make_child_path
                          (make_child_path
                             (make_child_path (make_child_path (path BASE_URL) ''organizations'') s)
                             ''fields'') f,
                 query = []\<rparr>
      in (log @ [url],
          case private url of
            Inl e \<Rightarrow> Inl (ClientError e)
          | Inr response \<Rightarrow>
              if 200 \<le> status_code response \<and> status_code response < 300
              then response_json response else Inl (HTTPStatusError response)))"
  using assms
  by (simp add: get_field_def field_chain_accepted Let_def private_get_def
        raise_for_status_def split: sum.splits)

lemma get_field_outcome:
  "(\<exists>m. get_field BASE_URL private log org_id field_id = (log, Inl (ValueError m)))
   \<or> (\<exists>s f. py_str org_id = Inr s \<and> py_str field_id = Inr f
            \<and> \<not> starts_with_slash s \<and> \<not> starts_with_slash f)"
proof (cases "py_str org_id")
  case (Inl m)
  then show ?thesis
    by (simp add: get_field_def)
next
  case s: (Inr s)
  show ?thesis
  proof (cases "py_str field_id")
    case (Inl m)
    with s show ?thesis
      by (simp add: get_field_def)
  next
    case f: (Inr f)
    show ?thesis
    proof (cases "starts_with_slash s \<or> starts_with_slash f")
      case True
      then obtain m where
        "then_truediv
           (then_truediv (then_truediv (url_truediv BASE_URL ''organizations'') s) ''fields'') f
         = Inl m"
        using field_chain_refused by blast
      with s f show ?thesis
        by (simp add: get_field_def)
    next
      case False
      with s f show ?thesis
        by simp
    qed
  qed
qed

text \<open>A call that has logged a request has gone the last way.\<close>

lemma get_fields_logged:
  assumes "fst (get_fields BASE_URL private registered log org_id field_name farm_name client_name
                  record_filter embed') = log @ [u]"
  shows "get_fields BASE_URL private registered log org_id field_name farm_name client_name
           record_filter embed'
         = (log @ [u],
            case private u of
              Inl e \<Rightarrow> Inl (ClientError e)
            | Inr response \<Rightarrow>
                if 200 \<le> status_code response \<and> status_code response < 300
                then response_json response else Inl (HTTPStatusError response))"
proof -
  from get_fields_outcome [of BASE_URL "private" registered log org_id field_name farm_name
      client_name record_filter embed'] assms
  obtain s where v: "py_str org_id = Inr s" "\<not> starts_with_slash s"
    "record_filter \<in> set (RecordStatuses registered)"
    by auto
  from assms show ?thesis
    by (simp add: get_fields_valid [OF v] Let_def)
qed

lemma get_field_logged:
  assumes "fst (get_field BASE_URL private log org_id field_id) = log @ [u]"
  shows "get_field BASE_URL private log org_id field_id
         = (log @ [u],
            case private u of
              Inl e \<Rightarrow> Inl (ClientError e)
            | Inr response \<Rightarrow>
                if 200 \<le> status_code response \<and> status_code response < 300
                then response_json response else Inl (HTTPStatusError response))"
proof -
  from get_field_outcome [of BASE_URL "private" log org_id field_id] assms
  obtain s f where v: "py_str org_id = Inr s" "py_str field_id = Inr f"
    "\<not> starts_with_slash s" "\<not> starts_with_slash f"
    by auto
  from assms show ?thesis
    by (simp add: get_field_eq [OF v] Let_def)
qed

lemma get_fields_returns:
  assumes "snd (get_fields BASE_URL private registered log org_id field_name farm_name
                  client_name record_filter embed') = Inr v"
  shows "\<exists>s. py_str org_id = Inr s \<and> \<not> starts_with_slash s
             \<and> record_filter \<in> set (RecordStatuses registered)"
  using get_fields_outcome [of BASE_URL "private" registered log org_id field_name farm_name
      client_name record_filter embed'] assms
  by auto

text \<open>With plain segments the path of the request is the one of the endpoint.\<close>

lemma get_fields_valid_plain:
  assumes "list_all plain_segment (path BASE_URL)" and "py_str org_id = Inr s"
    and "plain_segment s" and "record_filter \<in> set (RecordStatuses registered)"
  shows "get_fields BASE_URL private registered log org_id field_name farm_name client_name
           record_filter embed'
         = (let url = \<lparr>origin = origin BASE_URL,
                       path = path BASE_URL @ [''organizations'', s, ''fields''],
                       query = (case field_name of None \<Rightarrow> [] | Some v \<Rightarrow> [(''fieldName'', v)])
                             @ (case farm_name of None \<Rightarrow> [] | Some v \<Rightarrow> [(''farmName'', v)])
                             @ (case client_name of None \<Rightarrow> [] | Some v \<Rightarrow> [(''clientName'', v)])
                             @ [(''recordFilter'', record_filter),
                                (''embed'', ''clients,farms,boundaries'')]\<rparr>
            in (log @ [url],
                case private url of
                  Inl e \<Rightarrow> Inl (ClientError e)
                | Inr response \<Rightarrow>
                    if 200 \<le> status_code response \<and> status_code response < 300
                    then response_json response else Inl (HTTPStatusError response)))"
  by (simp add: get_fields_valid [OF assms(2) plain_segment_no_slash [OF assms(3)] assms(4)]
        fields_path_plain [OF assms(1) assms(3)])

lemma get_field_eq_plain:
  assumes "list_all plain_segment (path BASE_URL)" and "py_str org_id = Inr s"
    and "plain_segment s" and "py_str field_id = Inr f" and "plain_segment f"
  shows "get_field BASE_URL private log org_id field_id
   = (let url = \<lparr>origin = origin BASE_URL,
                 path = path BASE_URL @ [''organizations'', s, ''fields'', f],
                 query = []\<rparr>
      in (log @ [url],
          case private url of
            Inl e \<Rightarrow> Inl (ClientError e)
          | Inr response \<Rightarrow>
              if 200 \<le> status_code response \<and> status_code response < 300
              then response_json response else Inl (HTTPStatusError response)))"
  by (simp add: get_field_eq [OF assms(2) assms(4) plain_segment_no_slash [OF assms(3)]
          plain_segment_no_slash [OF assms(5)]]
        field_path_plain [OF assms(1) assms(3) assms(5)])

text \<open>Ground facts used at the concrete inputs below.\<close>

lemma py_str_1: "py_str (PyInt 1) = Inr ''1''"
  by code_simp


lemma plain_1: "plain_segment ''1''"
  by (simp add: plain_segment_def)


lemma plain_abc_guid: "plain_segment ''abc-guid''"
  by (simp add: plain_segment_def)

lemma ACTIVE_member: "''ACTIVE'' \<in> set (RecordStatuses registered)"
  by (simp add: RecordStatuses_def)

lemma str_int_limit:
  assumes "max_str_digits < length (str_nat n)"
  shows "py_str (PyInt (int n))
         = Inl (''Exceeds the limit (4300 digits) for integer string conversion; ''
                @ ''use sys.set_int_max_str_digits() to increase the limit'')"
  using assms by (simp add: str_int_def Let_def)



section \<open>Properties\<close>

text \<open>
  Claim C1, amended. When \<^verbatim>\<open>record_filter\<close> is not a member of \<^verbatim>\<open>RecordStatuses\<close> (the three
  declared members and whatever was registered at run time), \<^const>\<open>get_fields\<close> issues no
  request and raises a \<^verbatim>\<open>ValueError\<close>. When moreover \<^verbatim>\<open>str(org_id)\<close> succeeds and does not
  start with a slash, so that the URL is built, the message is
  \<^verbatim>\<open>Invalid record status: \<close> followed by the offending value.
\<close>

theorem get_fields_invalid_record_filter:
  assumes "record_filter \<notin> set (RecordStatuses registered)"
  shows "fst (get_fields BASE_URL private registered log org_id field_name farm_name client_name
                record_filter embed') = log
         \<and> (\<exists>m. snd (get_fields BASE_URL private registered log org_id field_name farm_name
                        client_name record_filter embed') = Inl (ValueError m))
         \<and> (py_str org_id = Inr s \<and> \<not> starts_with_slash s \<longrightarrow>
              get_fields BASE_URL private registered log org_id field_name farm_name client_name
                record_filter embed'
              = (log, Inl (ValueError (''Invalid record status: '' @ record_filter))))"
proof -
  from get_fields_outcome [of BASE_URL "private" registered log org_id field_name farm_name
      client_name record_filter embed'] assms
  obtain m where "get_fields BASE_URL private registered log org_id field_name farm_name
      client_name record_filter embed' = (log, Inl (ValueError m))"
    by auto
  then show ?thesis
    using assms by (auto simp: get_fields_invalid)
qed

theorem get_fields_invalid_record_filter_witness:
  "''BOGUS'' \<notin> set (RecordStatuses [])
   \<and> py_str (PyInt 1) = Inr ''1'' \<and> \<not> starts_with_slash ''1''
   \<and> get_fields \<lparr>origin = ''https://api.deere.com'', path = [''platform''], query = []\<rparr>
       (\<lambda>u. Inr \<lparr>status_code = 200, json = Inr (0::nat)\<rparr> :: unit + (unit, nat) response)
       [] [] (PyInt 1) None None None ''BOGUS'' None
     = ([], Inl (ValueError (''Invalid record status: '' @ ''BOGUS'')))"
proof -
  have h: "''BOGUS'' \<notin> set (RecordStatuses [])"
    by (simp add: RecordStatuses_def)
  have n: "\<not> starts_with_slash ''1''"
    by (simp add: starts_with_slash_def)
  show ?thesis
    using h n py_str_1 get_fields_invalid_record_filter
        [OF h, of "\<lparr>origin = ''https://api.deere.com'', path = [''platform''], query = []\<rparr>"
            "\<lambda>u. Inr \<lparr>status_code = 200, json = Inr (0::nat)\<rparr> :: unit + (unit, nat) response"
            "[]" "PyInt 1" None None None None "''1''"]
    by blast
qed

text \<open>
  Without the condition on \<^verbatim>\<open>org_id\<close> the message need not name the value: the URL is
  built before \<^verbatim>\<open>record_filter\<close> is tested, and for \<^verbatim>\<open>org_id = "/1"\<close> the URL builder
  raises its own \<^verbatim>\<open>ValueError\<close>, in whose message \<^verbatim>\<open>BOGUS\<close> does not occur.
\<close>

theorem get_fields_invalid_record_filter_counterexample:
  "''BOGUS'' \<notin> set (RecordStatuses [])
   \<and> get_fields \<lparr>origin = ''https://api.deere.com'', path = [''platform''], query = []\<rparr>
       (\<lambda>u. Inr \<lparr>status_code = 200, json = Inr (0::nat)\<rparr> :: unit + (unit, nat) response)
       [] [] (PyStr ''/1'') None None None ''BOGUS'' None
     = ([], Inl (ValueError (''Appending path '' @ [CHR 0x27] @ ''/1'' @ [CHR 0x27]
                              @ '' starting from slash is forbidden'')))
   \<and> \<not> sublist ''BOGUS'' (''Appending path '' @ [CHR 0x27] @ ''/1'' @ [CHR 0x27]
                           @ '' starting from slash is forbidden'')"
  by code_simp

text \<open>
  Claim C2, amended. When \<^verbatim>\<open>record_filter\<close> is a member of \<^verbatim>\<open>RecordStatuses\<close> (one of
  \<^verbatim>\<open>ALL\<close>, \<^verbatim>\<open>ACTIVE\<close>, \<^verbatim>\<open>ARCHIVED\<close> or a value registered at run time) and \<^verbatim>\<open>str(org_id)\<close>
  succeeds and does not start with a slash, \<^const>\<open>get_fields\<close> issues one GET request, and
  the query of its URL has exactly one \<^verbatim>\<open>recordFilter\<close> parameter, whose value is
  \<^verbatim>\<open>record_filter\<close>.
\<close>

theorem get_fields_record_filter_query:
  assumes "record_filter \<in> set (RecordStatuses registered)"
    and "py_str org_id = Inr s" and "\<not> starts_with_slash s"
  shows "\<exists>u. fst (get_fields BASE_URL private registered log org_id field_name farm_name
                   client_name record_filter embed') = log @ [u]
           \<and> filter (\<lambda>p. fst p = ''recordFilter'') (query u) = [(''recordFilter'', record_filter)]"
  by (cases field_name; cases farm_name; cases client_name)
     (simp_all add: get_fields_valid [OF assms(2) assms(3) assms(1)] Let_def)

theorem get_fields_record_filter_query_witness:
  "''PENDING'' \<in> set (RecordStatuses [''PENDING''])
   \<and> py_str (PyInt 1) = Inr ''1'' \<and> \<not> starts_with_slash ''1''
   \<and> (\<exists>u. fst (get_fields \<lparr>origin = ''https://api.deere.com'', path = [''platform''], query = []\<rparr>
                  (\<lambda>u. Inr \<lparr>status_code = 200, json = Inr (0::nat)\<rparr> :: unit + (unit, nat) response)
                  [''PENDING''] [] (PyInt 1) None None None ''PENDING'' None) = [] @ [u]
          \<and> filter (\<lambda>p. fst p = ''recordFilter'') (query u) = [(''recordFilter'', ''PENDING'')])"
proof -
  have h: "''PENDING'' \<in> set (RecordStatuses [''PENDING''])"
    by (simp add: RecordStatuses_def)
  have n: "\<not> starts_with_slash ''1''"
    by (simp add: starts_with_slash_def)
  show ?thesis
    using h n py_str_1 get_fields_record_filter_query
        [OF h py_str_1 n,
          of "\<lparr>origin = ''https://api.deere.com'', path = [''platform''], query = []\<rparr>"
            "\<lambda>u. Inr \<lparr>status_code = 200, json = Inr (0::nat)\<rparr> :: unit + (unit, nat) response"
            "[]" None None None None]
    by blast
qed

text \<open>
  Without the condition on \<^verbatim>\<open>org_id\<close> there may be no request at all: for
  \<^verbatim>\<open>org_id = "/acme"\<close> the URL builder raises before anything is requested.
\<close>

theorem get_fields_record_filter_query_counterexample:
  "''ACTIVE'' \<in> set (RecordStatuses [])
   \<and> get_fields \<lparr>origin = ''https://api.deere.com'', path = [''platform''], query = []\<rparr>
       (\<lambda>u. Inr \<lparr>status_code = 200, json = Inr (0::nat)\<rparr> :: unit + (unit, nat) response)
       [] [] (PyStr ''/acme'') None None None ''ACTIVE'' None
     = ([], Inl (ValueError (''Appending path '' @ [CHR 0x27] @ ''/acme'' @ [CHR 0x27]
                              @ '' starting from slash is forbidden'')))"
  by code_simp

text \<open>
  Claim C3. Whenever \<^const>\<open>get_fields\<close> returns a value, whatever optional arguments were
  supplied, it has issued one GET request, and the query of its URL has exactly one
  \<^verbatim>\<open>embed\<close> parameter, whose value is \<^verbatim>\<open>clients,farms,boundaries\<close>.
\<close>

theorem get_fields_embed_query:
  assumes "snd (get_fields BASE_URL private registered log org_id field_name farm_name
                  client_name record_filter embed') = Inr v"
  shows "\<exists>u. fst (get_fields BASE_URL private registered log org_id field_name farm_name
                   client_name record_filter embed') = log @ [u]
           \<and> filter (\<lambda>p. fst p = ''embed'') (query u) = [(''embed'', ''clients,farms,boundaries'')]"
proof -
  from get_fields_returns [OF assms]
  obtain s where v: "py_str org_id = Inr s" "\<not> starts_with_slash s"
    "record_filter \<in> set (RecordStatuses registered)"
    by auto
  show ?thesis
    by (cases field_name; cases farm_name; cases client_name)
       (simp_all add: get_fields_valid [OF v] Let_def)
qed

theorem get_fields_embed_query_witness:
  "snd (get_fields \<lparr>origin = ''https://api.deere.com/platform'', path = [], query = []\<rparr>
          (\<lambda>u. Inr \<lparr>status_code = 200, json = Inr (7::nat)\<rparr> :: unit + (unit, nat) response)
          [] [] (PyInt 1) (Some ''North40'') None None ''ACTIVE'' None) = Inr 7
   \<and> (\<exists>u. fst (get_fields \<lparr>origin = ''https://api.deere.com/platform'', path = [], query = []\<rparr>
                  (\<lambda>u. Inr \<lparr>status_code = 200, json = Inr (7::nat)\<rparr> :: unit + (unit, nat) response)
                  [] [] (PyInt 1) (Some ''North40'') None None ''ACTIVE'' None) = [] @ [u]
          \<and> filter (\<lambda>p. fst p = ''embed'') (query u) = [(''embed'', ''clients,farms,boundaries'')])"
proof -
  have s: "py_str (PyInt 1) = Inr ''1''"
    by code_simp
  have n: "\<not> starts_with_slash ''1''"
    by (simp add: starts_with_slash_def)
  have r: "''ACTIVE'' \<in> set (RecordStatuses [])"
    by (simp add: RecordStatuses_def)
  have h: "snd (get_fields \<lparr>origin = ''https://api.deere.com/platform'', path = [], query = []\<rparr>
          (\<lambda>u. Inr \<lparr>status_code = 200, json = Inr (7::nat)\<rparr> :: unit + (unit, nat) response)
          [] [] (PyInt 1) (Some ''North40'') None None ''ACTIVE'' None) = Inr 7"
    by (simp add: get_fields_valid [OF s n r] Let_def response_json_def)
  show ?thesis
    using h get_fields_embed_query [OF h] by simp
qed

text \<open>
  Claim C4. The \<^verbatim>\<open>embed\<close> argument of \<^const>\<open>get_fields\<close> is dead: two calls that differ
  only in that argument leave the same request log (hence build the same URL and issue
  the same request) and have the same outcome.
\<close>

theorem get_fields_embed_dead:
  "get_fields BASE_URL private registered log org_id field_name farm_name client_name
     record_filter embed1
   = get_fields BASE_URL private registered log org_id field_name farm_name client_name
       record_filter embed2"
  by (simp add: get_fields_def)




text \<open>
  Claim C6, amended. Let the path of \<^verbatim>\<open>BASE_URL\<close> consist of plain segments, let
  \<^verbatim>\<open>str(org_id)\<close> succeed with a plain segment and let the string \<^verbatim>\<open>field_id\<close> be a plain
  segment. Then \<^const>\<open>get_field\<close> issues exactly one GET request, to the URL whose path is
  that of \<^verbatim>\<open>BASE_URL\<close> followed by \<^verbatim>\<open>organizations\<close>, \<^verbatim>\<open>str(org_id)\<close>, \<^verbatim>\<open>fields\<close>, \<^verbatim>\<open>field_id\<close>
  and whose query is empty; nothing else is checked before the request. When the client
  answers with a 2xx response whose body parses, the parsed body is returned.
\<close>

theorem get_field_request:
  assumes "list_all plain_segment (path BASE_URL)"
    and "py_str org_id = Inr s" and "plain_segment s" and "plain_segment field_id"
  shows "(let url = \<lparr>origin = origin BASE_URL,
                      path = path BASE_URL @ [''organizations'', s, ''fields'', field_id],
                      query = []\<rparr>
          in fst (get_field BASE_URL private log org_id (PyStr field_id)) = log @ [url]
             \<and> (private url = Inr response \<and> 200 \<le> status_code response
                  \<and> status_code response < 300 \<and> json response = Inr j
                \<longrightarrow> snd (get_field BASE_URL private log org_id (PyStr field_id)) = Inr j))"
proof -
  have f: "py_str (PyStr field_id) = Inr field_id"
    by simp
  show ?thesis
    by (auto simp: get_field_eq_plain [OF assms(1) assms(2) assms(3) f assms(4)] Let_def
          response_json_def)
qed

theorem get_field_request_witness:
  "list_all plain_segment
     (path \<lparr>origin = ''https://api.deere.com'', path = [''platform''], query = []\<rparr>)
   \<and> py_str (PyInt 1) = Inr ''1'' \<and> plain_segment ''1'' \<and> plain_segment ''abc-guid''
   \<and> (let url = \<lparr>origin = origin \<lparr>origin = ''https://api.deere.com'', path = [''platform''],
                                    query = []\<rparr>,
                   path = path \<lparr>origin = ''https://api.deere.com'', path = [''platform''],
                                query = []\<rparr>
                          @ [''organizations'', ''1'', ''fields'', ''abc-guid''],
                   query = []\<rparr>
       in (\<lambda>u. Inr \<lparr>status_code = 200, json = Inr (7::nat)\<rparr> :: unit + (unit, nat) response) url
            = Inr \<lparr>status_code = 200, json = Inr 7\<rparr>
          \<and> (200::int) \<le> status_code \<lparr>status_code = 200, json = Inr (7::nat) :: unit + nat\<rparr>
          \<and> status_code \<lparr>status_code = 200, json = Inr (7::nat) :: unit + nat\<rparr> < 300
          \<and> json \<lparr>status_code = 200, json = Inr (7::nat) :: unit + nat\<rparr> = Inr 7
          \<and> fst (get_field \<lparr>origin = ''https://api.deere.com'', path = [''platform''], query = []\<rparr>
                    (\<lambda>u. Inr \<lparr>status_code = 200, json = Inr (7::nat)\<rparr> :: unit + (unit, nat) response)
                    [] (PyInt 1) (PyStr ''abc-guid'')) = [] @ [url]
          \<and> snd (get_field \<lparr>origin = ''https://api.deere.com'', path = [''platform''], query = []\<rparr>
                    (\<lambda>u. Inr \<lparr>status_code = 200, json = Inr (7::nat)\<rparr> :: unit + (unit, nat) response)
                    [] (PyInt 1) (PyStr ''abc-guid'')) = Inr 7)"
proof -
  have p: "list_all plain_segment
             (path \<lparr>origin = ''https://api.deere.com'', path = [''platform''], query = []\<rparr>)"
    by (simp add: plain_segment_def)
  show ?thesis
    using p py_str_1 plain_1 plain_abc_guid
      get_field_request
        [OF p py_str_1 plain_1 plain_abc_guid,
          of "\<lambda>u. Inr \<lparr>status_code = 200, json = Inr (7::nat)\<rparr> :: unit + (unit, nat) response"
            "[]" "\<lparr>status_code = 200, json = Inr (7::nat)\<rparr>" 7]
    by (simp add: Let_def)
qed

text \<open>
  Without the conditions there may be no request: for \<^verbatim>\<open>field_id = "/abc"\<close> the URL
  builder raises \<^verbatim>\<open>ValueError\<close>.
\<close>

theorem get_field_request_counterexample:
  "get_field \<lparr>origin = ''https://api.deere.com'', path = [''platform''], query = []\<rparr>
       (\<lambda>u. Inr \<lparr>status_code = 200, json = Inr (7::nat)\<rparr> :: unit + (unit, nat) response)
       [] (PyInt 1) (PyStr ''/abc'')
     = ([], Inl (ValueError (''Appending path '' @ [CHR 0x27] @ ''/abc'' @ [CHR 0x27]
                              @ '' starting from slash is forbidden'')))"
  by code_simp

text \<open>
  Claim C7, amended. When \<^verbatim>\<open>record_filter\<close> is accepted and \<^verbatim>\<open>str(org_id)\<close> succeeds and does
  not start with a slash, then in the request \<^const>\<open>get_fields\<close> issues each of
  \<^verbatim>\<open>fieldName\<close>, \<^verbatim>\<open>farmName\<close>, \<^verbatim>\<open>clientName\<close> is a query parameter exactly when the argument
  is not \<^verbatim>\<open>None\<close>, and then carries the argument's value: looking the key up in the query
  gives back the optional argument. The query is a fixed function of the arguments: the
  present filters in the order field, farm, client, then \<^verbatim>\<open>recordFilter\<close> and \<^verbatim>\<open>embed\<close>.
\<close>

theorem get_fields_optional_filters:
  assumes "record_filter \<in> set (RecordStatuses registered)"
    and "py_str org_id = Inr s" and "\<not> starts_with_slash s"
  shows "\<exists>u. fst (get_fields BASE_URL private registered log org_id field_name farm_name
                   client_name record_filter embed') = log @ [u]
           \<and> map_of (query u) ''fieldName'' = field_name
           \<and> map_of (query u) ''farmName'' = farm_name
           \<and> map_of (query u) ''clientName'' = client_name
           \<and> query u = (case field_name of None \<Rightarrow> [] | Some v \<Rightarrow> [(''fieldName'', v)])
                     @ (case farm_name of None \<Rightarrow> [] | Some v \<Rightarrow> [(''farmName'', v)])
                     @ (case client_name of None \<Rightarrow> [] | Some v \<Rightarrow> [(''clientName'', v)])
                     @ [(''recordFilter'', record_filter),
                        (''embed'', ''clients,farms,boundaries'')]"
  by (cases field_name; cases farm_name; cases client_name)
     (simp_all add: get_fields_valid [OF assms(2) assms(3) assms(1)] Let_def)

theorem get_fields_optional_filters_witness:
  "''ACTIVE'' \<in> set (RecordStatuses [])
   \<and> py_str (PyInt 1) = Inr ''1'' \<and> \<not> starts_with_slash ''1''
   \<and> (\<exists>u. fst (get_fields \<lparr>origin = ''https://api.deere.com'', path = [''platform''], query = []\<rparr>
                  (\<lambda>u. Inr \<lparr>status_code = 200, json = Inr (0::nat)\<rparr> :: unit + (unit, nat) response)
                  [] [] (PyInt 1) (Some ''North40'') None (Some ''Acme'') ''ACTIVE'' None) = [] @ [u]
          \<and> map_of (query u) ''fieldName'' = Some ''North40''
          \<and> map_of (query u) ''farmName'' = None
          \<and> map_of (query u) ''clientName'' = Some ''Acme''
          \<and> query u = [(''fieldName'', ''North40'')] @ [] @ [(''clientName'', ''Acme'')]
                     @ [(''recordFilter'', ''ACTIVE''), (''embed'', ''clients,farms,boundaries'')])"
proof -
  have h: "''ACTIVE'' \<in> set (RecordStatuses [])"
    by (simp add: RecordStatuses_def)
  have n: "\<not> starts_with_slash ''1''"
    by (simp add: starts_with_slash_def)
  show ?thesis
    using h n py_str_1 get_fields_optional_filters
        [OF h py_str_1 n,
          of "\<lparr>origin = ''https://api.deere.com'', path = [''platform''], query = []\<rparr>"
            "\<lambda>u. Inr \<lparr>status_code = 200, json = Inr (0::nat)\<rparr> :: unit + (unit, nat) response"
            "[]" "Some ''North40''" None "Some ''Acme''" None]
    by simp
qed

text \<open>
  Without the condition on \<^verbatim>\<open>org_id\<close> no URL comes about: for \<^verbatim>\<open>org_id = "/42"\<close> the URL
  builder raises before the filters are looked at, although \<^verbatim>\<open>field_name\<close> is present.
\<close>

theorem get_fields_optional_filters_counterexample:
  "''ACTIVE'' \<in> set (RecordStatuses [])
   \<and> get_fields \<lparr>origin = ''https://api.deere.com'', path = [''platform''], query = []\<rparr>
       (\<lambda>u. Inr \<lparr>status_code = 200, json = Inr (0::nat)\<rparr> :: unit + (unit, nat) response)
       [] [] (PyStr ''/42'') (Some ''North40'') None None ''ACTIVE'' None
     = ([], Inl (ValueError (''Appending path '' @ [CHR 0x27] @ ''/42'' @ [CHR 0x27]
                              @ '' starting from slash is forbidden'')))"
  by code_simp

text \<open>
  Claim C8. When the request issued by \<^const>\<open>get_fields\<close> or \<^const>\<open>get_field\<close> makes the
  client raise an error, the call ends with that very error; when the client returns a
  response whose status is not 2xx, the call ends with the status error of that very
  response. In both cases no value is returned and the log holds the one request: nothing
  is retried.
\<close>

theorem client_failure_propagates:
  "(fst (get_fields BASE_URL private registered log org_id field_name farm_name client_name
           record_filter embed') = log @ [u] \<and> private u = Inl e
    \<longrightarrow> get_fields BASE_URL private registered log org_id field_name farm_name client_name
           record_filter embed' = (log @ [u], Inl (ClientError e)))
   \<and> (fst (get_fields BASE_URL private registered log org_id field_name farm_name client_name
              record_filter embed') = log @ [u] \<and> private u = Inr response
       \<and> \<not> (200 \<le> status_code response \<and> status_code response < 300)
       \<longrightarrow> get_fields BASE_URL private registered log org_id field_name farm_name client_name
              record_filter embed' = (log @ [u], Inl (HTTPStatusError response)))
   \<and> (fst (get_field BASE_URL private log org_id field_id) = log @ [u'] \<and> private u' = Inl e
       \<longrightarrow> get_field BASE_URL private log org_id field_id = (log @ [u'], Inl (ClientError e)))
   \<and> (fst (get_field BASE_URL private log org_id field_id) = log @ [u'] \<and> private u' = Inr response
       \<and> \<not> (200 \<le> status_code response \<and> status_code response < 300)
       \<longrightarrow> get_field BASE_URL private log org_id field_id
            = (log @ [u'], Inl (HTTPStatusError response)))"
proof (intro conjI impI)
  assume a: "fst (get_fields BASE_URL private registered log org_id field_name farm_name
                    client_name record_filter embed') = log @ [u] \<and> private u = Inl e"
  then show "get_fields BASE_URL private registered log org_id field_name farm_name client_name
               record_filter embed' = (log @ [u], Inl (ClientError e))"
    using get_fields_logged [of BASE_URL "private" registered log org_id field_name farm_name
        client_name record_filter embed' u]
    by simp
next
  assume a: "fst (get_fields BASE_URL private registered log org_id field_name farm_name
                    client_name record_filter embed') = log @ [u] \<and> private u = Inr response
             \<and> \<not> (200 \<le> status_code response \<and> status_code response < 300)"
  then show "get_fields BASE_URL private registered log org_id field_name farm_name client_name
               record_filter embed' = (log @ [u], Inl (HTTPStatusError response))"
    using get_fields_logged [of BASE_URL "private" registered log org_id field_name farm_name
        client_name record_filter embed' u]
    by auto
next
  assume a: "fst (get_field BASE_URL private log org_id field_id) = log @ [u'] \<and> private u' = Inl e"
  then show "get_field BASE_URL private log org_id field_id = (log @ [u'], Inl (ClientError e))"
    using get_field_logged [of BASE_URL "private" log org_id field_id u']
    by simp
next
  assume a: "fst (get_field BASE_URL private log org_id field_id) = log @ [u']
             \<and> private u' = Inr response
             \<and> \<not> (200 \<le> status_code response \<and> status_code response < 300)"
  then show "get_field BASE_URL private log org_id field_id
             = (log @ [u'], Inl (HTTPStatusError response))"
    using get_field_logged [of BASE_URL "private" log org_id field_id u']
    by auto
qed

theorem client_failure_propagates_witness:
  "(fst (get_fields \<lparr>origin = ''https://api.deere.com/platform'', path = [], query = []\<rparr>
           (\<lambda>u. Inl ''timeout'' :: string + (string, nat) response)
           [] [] (PyInt 1) None None None ''ACTIVE'' None)
      = [] @ [\<lparr>origin = ''https://api.deere.com/platform'',
                path = [''organizations'', ''1'', ''fields''],
                query = [(''recordFilter'', ''ACTIVE''), (''embed'', ''clients,farms,boundaries'')]\<rparr>]
    \<and> get_fields \<lparr>origin = ''https://api.deere.com/platform'', path = [], query = []\<rparr>
           (\<lambda>u. Inl ''timeout'' :: string + (string, nat) response)
           [] [] (PyInt 1) None None None ''ACTIVE'' None
      = ([] @ [\<lparr>origin = ''https://api.deere.com/platform'',
                 path = [''organizations'', ''1'', ''fields''],
                 query = [(''recordFilter'', ''ACTIVE''), (''embed'', ''clients,farms,boundaries'')]\<rparr>],
         Inl (ClientError ''timeout'')))
   \<and> (fst (get_field \<lparr>origin = ''https://api.deere.com/platform'', path = [], query = []\<rparr>
              (\<lambda>u. Inl ''timeout'' :: string + (string, nat) response)
              [] (PyInt 1) (PyStr ''abc-guid''))
         = [] @ [\<lparr>origin = ''https://api.deere.com/platform'',
                   path = [''organizations'', ''1'', ''fields'', ''abc-guid''], query = []\<rparr>]
       \<and> get_field \<lparr>origin = ''https://api.deere.com/platform'', path = [], query = []\<rparr>
              (\<lambda>u. Inl ''timeout'' :: string + (string, nat) response)
              [] (PyInt 1) (PyStr ''abc-guid'')
         = ([] @ [\<lparr>origin = ''https://api.deere.com/platform'',
                    path = [''organizations'', ''1'', ''fields'', ''abc-guid''], query = []\<rparr>],
            Inl (ClientError ''timeout'')))
   \<and> (fst (get_fields \<lparr>origin = ''https://api.deere.com/platform'', path = [], query = []\<rparr>
              (\<lambda>u. Inr \<lparr>status_code = 404, json = Inr (0::nat)\<rparr> :: string + (string, nat) response)
              [] [] (PyInt 1) None None None ''ACTIVE'' None)
         = [] @ [\<lparr>origin = ''https://api.deere.com/platform'',
                   path = [''organizations'', ''1'', ''fields''],
                   query = [(''recordFilter'', ''ACTIVE''), (''embed'', ''clients,farms,boundaries'')]\<rparr>]
       \<and> \<not> (200 \<le> status_code \<lparr>status_code = 404, json = Inr (0::nat) :: string + nat\<rparr>
              \<and> status_code \<lparr>status_code = 404, json = Inr (0::nat) :: string + nat\<rparr> < 300)
       \<and> get_fields \<lparr>origin = ''https://api.deere.com/platform'', path = [], query = []\<rparr>
              (\<lambda>u. Inr \<lparr>status_code = 404, json = Inr (0::nat)\<rparr> :: string + (string, nat) response)
              [] [] (PyInt 1) None None None ''ACTIVE'' None
         = ([] @ [\<lparr>origin = ''https://api.deere.com/platform'',
                    path = [''organizations'', ''1'', ''fields''],
                    query = [(''recordFilter'', ''ACTIVE''), (''embed'', ''clients,farms,boundaries'')]\<rparr>],
            Inl (HTTPStatusError \<lparr>status_code = 404, json = Inr 0\<rparr>)))
   \<and> (fst (get_field \<lparr>origin = ''https://api.deere.com/platform'', path = [], query = []\<rparr>
              (\<lambda>u. Inr \<lparr>status_code = 404, json = Inr (0::nat)\<rparr> :: string + (string, nat) response)
              [] (PyInt 1) (PyStr ''abc-guid''))
         = [] @ [\<lparr>origin = ''https://api.deere.com/platform'',
                   path = [''organizations'', ''1'', ''fields'', ''abc-guid''], query = []\<rparr>]
       \<and> get_field \<lparr>origin = ''https://api.deere.com/platform'', path = [], query = []\<rparr>
              (\<lambda>u. Inr \<lparr>status_code = 404, json = Inr (0::nat)\<rparr> :: string + (string, nat) response)
              [] (PyInt 1) (PyStr ''abc-guid'')
         = ([] @ [\<lparr>origin = ''https://api.deere.com/platform'',
                    path = [''organizations'', ''1'', ''fields'', ''abc-guid''], query = []\<rparr>],
            Inl (HTTPStatusError \<lparr>status_code = 404, json = Inr 0\<rparr>)))"
proof -
  have p: "list_all plain_segment
             (path \<lparr>origin = ''https://api.deere.com/platform'', path = [], query = []\<rparr>)"
    by simp
  have g: "py_str (PyStr ''abc-guid'') = Inr ''abc-guid''"
    by simp
  have a: "fst (get_fields \<lparr>origin = ''https://api.deere.com/platform'', path = [], query = []\<rparr>
                  c [] [] (PyInt 1) None None None ''ACTIVE'' None)
           = [] @ [\<lparr>origin = ''https://api.deere.com/platform'',
                     path = [''organizations'', ''1'', ''fields''],
                     query = [(''recordFilter'', ''ACTIVE''), (''embed'', ''clients,farms,boundaries'')]\<rparr>]"
    for c :: "(string, nat) client"
    by (simp add: get_fields_valid_plain [OF p py_str_1 plain_1 ACTIVE_member] Let_def)
  have b: "fst (get_field \<lparr>origin = ''https://api.deere.com/platform'', path = [], query = []\<rparr>
                  c [] (PyInt 1) (PyStr ''abc-guid''))
           = [] @ [\<lparr>origin = ''https://api.deere.com/platform'',
                     path = [''organizations'', ''1'', ''fields'', ''abc-guid''], query = []\<rparr>]"
    for c :: "(string, nat) client"
    by (simp add: get_field_eq_plain [OF p py_str_1 plain_1 g plain_abc_guid] Let_def)
  show ?thesis
    using a b
      client_failure_propagates
        [of "\<lparr>origin = ''https://api.deere.com/platform'', path = [], query = []\<rparr>"
            "\<lambda>u. Inl ''timeout'' :: string + (string, nat) response"
            "[]" "[]" "PyInt 1" None None None "''ACTIVE''" None
            "\<lparr>origin = ''https://api.deere.com/platform'',
              path = [''organizations'', ''1'', ''fields''],
              query = [(''recordFilter'', ''ACTIVE''), (''embed'', ''clients,farms,boundaries'')]\<rparr>"
            "''timeout''" "\<lparr>status_code = 404, json = Inr 0\<rparr>" "PyStr ''abc-guid''"
            "\<lparr>origin = ''https://api.deere.com/platform'',
              path = [''organizations'', ''1'', ''fields'', ''abc-guid''], query = []\<rparr>"]
      client_failure_propagates
        [of "\<lparr>origin = ''https://api.deere.com/platform'', path = [], query = []\<rparr>"
            "\<lambda>u. Inr \<lparr>status_code = 404, json = Inr (0::nat)\<rparr> :: string + (string, nat) response"
            "[]" "[]" "PyInt 1" None None None "''ACTIVE''" None
            "\<lparr>origin = ''https://api.deere.com/platform'',
              path = [''organizations'', ''1'', ''fields''],
              query = [(''recordFilter'', ''ACTIVE''), (''embed'', ''clients,farms,boundaries'')]\<rparr>"
            "''timeout''" "\<lparr>status_code = 404, json = Inr 0\<rparr>" "PyStr ''abc-guid''"
            "\<lparr>origin = ''https://api.deere.com/platform'',
              path = [''organizations'', ''1'', ''fields'', ''abc-guid''], query = []\<rparr>"]
    by simp
qed







end
